theory Spec2Isabelle
  imports Main "HOL-Library.AList"
begin

section \<open>Documents\<close>

text \<open>
  The handlers of \<^verbatim>\<open>main.py\<close> work on Python dictionaries that hold BSON values. A
  dictionary keeps its keys in insertion order, so a document is an association list;
  \<open>map_of\<close> is the lookup, \<open>AList.update\<close> is the assignment \<^verbatim>\<open>doc[k] = v\<close> (the key
  keeps its place when it is there already, and goes to the end otherwise) and
  \<open>AList.delete\<close> is \<^verbatim>\<open>doc.pop(k)\<close>.
\<close>

datatype bson =
    BNull
  | BBool bool
  | BInt int
  | BStr string
  | BObjectId string
  | BDateTime int
  | BList "bson list"
  | BDoc "(string \<times> bson) list"

type_synonym doc = "(string \<times> bson) list"

section \<open>The platform\<close>

text \<open>
  Three operations belong to Python and to the document store, not to the repository:
  the builtin \<^verbatim>\<open>str\<close>, the compilation of a \<^verbatim>\<open>$regex\<close> pattern that is more than
  plain text (\<open>None\<close> when the store refuses the pattern) and the store's comparison of
  two field values, where an absent field is \<open>None\<close>. The model takes them as
  parameters, so every theorem below holds for whatever they compute.
\<close>

record platform =
  py_str :: "bson \<Rightarrow> string"
  re_compile :: "string \<Rightarrow> string \<Rightarrow> (string \<Rightarrow> bool) option"
  bson_less :: "bson option \<Rightarrow> bson option \<Rightarrow> bool"

section \<open>Query documents of the store\<close>

text \<open>
  The query documents the handlers build: a field is compared with a literal
  (\<^verbatim>\<open>{"tags": "featured"}\<close>), with a pattern (\<^verbatim>\<open>{"$regex": q, "$options": "i"}\<close>) or
  through \<^verbatim>\<open>$elemMatch\<close>; the clauses of one document hold together, and \<^verbatim>\<open>$or\<close> takes a
  list of query documents.
\<close>

datatype cond =
    Eq bson
  | Regex string string
  | ElemMatch cond

datatype clause =
    Field string cond
  | Or "clause list list"

type_synonym filter = "clause list"

text \<open>
  \<^verbatim>\<open>$regex\<close>. A pattern made of ASCII letters, digits and spaces has no metacharacter:
  with the option \<^verbatim>\<open>i\<close> the store searches the text for it, anywhere, with ASCII letters
  folded (the store's folding of other scripts is not modelled). Every other pattern, and
  every other option, is left to the platform.
\<close>

definition plain :: "char \<Rightarrow> bool" where
  "plain c =
     (c \<in> set ''abcdefghijklmnopqrstuvwxyzABCDEFGHIJKLMNOPQRSTUVWXYZ0123456789 '')"

definition lower :: "char \<Rightarrow> char" where
  "lower c =
     (case map_of (zip ''ABCDEFGHIJKLMNOPQRSTUVWXYZ'' ''abcdefghijklmnopqrstuvwxyz'') c of
        None \<Rightarrow> c
      | Some l \<Rightarrow> l)"

fun starts_with :: "string \<Rightarrow> string \<Rightarrow> bool" where
  "starts_with [] s = True"
| "starts_with (c # cs) [] = False"
| "starts_with (c # cs) (x # xs) = (c = x \<and> starts_with cs xs)"

fun contains :: "string \<Rightarrow> string \<Rightarrow> bool" where
  "contains p [] = (p = [])"
| "contains p (x # xs) = (starts_with p (x # xs) \<or> contains p xs)"

definition ci_contains :: "string \<Rightarrow> string \<Rightarrow> bool" where
  "ci_contains p s = contains (map lower p) (map lower s)"

definition regex :: "platform \<Rightarrow> string \<Rightarrow> string \<Rightarrow> (string \<Rightarrow> bool) option" where
  "regex P p opts =
     (if list_all plain p \<and> opts = ''i'' then Some (ci_contains p)
      else re_compile P p opts)"

text \<open>What one value does against a condition, without looking into arrays.\<close>

fun value_matches :: "platform \<Rightarrow> cond \<Rightarrow> bson \<Rightarrow> bool" where
  "value_matches P (Eq c) x = (x = c)"
| "value_matches P (Regex p opts) x =
     (case regex P p opts of
        None \<Rightarrow> False
      | Some m \<Rightarrow> (case x of BStr s \<Rightarrow> m s | _ \<Rightarrow> False))"
| "value_matches P (ElemMatch c) x =
     (case x of BList xs \<Rightarrow> list_ex (value_matches P c) xs | _ \<Rightarrow> False)"

text \<open>
  A field matches when its value does or, for a literal and for a pattern, when the value
  is an array and one of its elements does. An absent field matches the null literal only.
\<close>

fun field_matches :: "platform \<Rightarrow> cond \<Rightarrow> bson option \<Rightarrow> bool" where
  "field_matches P c None = (c = Eq BNull)"
| "field_matches P (ElemMatch c) (Some x) = value_matches P (ElemMatch c) x"
| "field_matches P c (Some x) =
     (value_matches P c x \<or>
      (case x of BList xs \<Rightarrow> list_ex (value_matches P c) xs | _ \<Rightarrow> False))"

fun clause_matches :: "platform \<Rightarrow> clause \<Rightarrow> doc \<Rightarrow> bool" where
  "clause_matches P (Field k c) d = field_matches P c (map_of d k)"
| "clause_matches P (Or fs) d =
     list_ex (\<lambda>f. list_all (\<lambda>cl. clause_matches P cl d) f) fs"

definition matches :: "platform \<Rightarrow> filter \<Rightarrow> doc \<Rightarrow> bool" where
  "matches P f d = list_all (\<lambda>cl. clause_matches P cl d) f"

text \<open>The store refuses a query document that holds a pattern it cannot compile.\<close>

fun cond_valid :: "platform \<Rightarrow> cond \<Rightarrow> bool" where
  "cond_valid P (Eq c) = True"
| "cond_valid P (Regex p opts) = (regex P p opts \<noteq> None)"
| "cond_valid P (ElemMatch c) = cond_valid P c"

fun clause_valid :: "platform \<Rightarrow> clause \<Rightarrow> bool" where
  "clause_valid P (Field k c) = cond_valid P c"
| "clause_valid P (Or fs) = list_all (\<lambda>f. list_all (clause_valid P) f) fs"

definition filter_valid :: "platform \<Rightarrow> filter \<Rightarrow> bool" where
  "filter_valid P f = list_all (clause_valid P) f"

section \<open>The store\<close>

text \<open>
  What reaches the server: a find with its collection, query document, sort
  specification (key and direction, \<open>-1\<close> descending) and limit, or an insertion.
\<close>

datatype op =
    Find string filter "(string \<times> int) option" nat
  | InsertOne string doc

text \<open>
  The store handle \<^verbatim>\<open>db\<close> of \<^verbatim>\<open>main.py\<close> is \<open>None\<close> or a connected store: the
  documents of each collection in their natural order, and the operations the server has
  received so far.
\<close>

record store =
  collections :: "string \<Rightarrow> doc list"
  queries :: "op list"



datatype error =
    RequestValidationError
  | HTTPException nat string
  | OperationFailure

text \<open>
  \<^verbatim>\<open>cursor.sort(key, direction)\<close>: \<open>precedes\<close> says that \<open>a\<close> has to come before \<open>b\<close>.
  The server leaves the order of ties open; the model keeps them in natural order.
\<close>

definition precedes :: "platform \<Rightarrow> string \<Rightarrow> int \<Rightarrow> doc \<Rightarrow> doc \<Rightarrow> bool" where
  "precedes P k dir a b =
     (if dir < 0 then bson_less P (map_of b k) (map_of a k)
      else bson_less P (map_of a k) (map_of b k))"

fun insert_doc :: "platform \<Rightarrow> string \<Rightarrow> int \<Rightarrow> doc \<Rightarrow> doc list \<Rightarrow> doc list" where
  "insert_doc P k dir d [] = [d]"
| "insert_doc P k dir d (y # ys) =
     (if precedes P k dir y d then y # insert_doc P k dir d ys else d # y # ys)"

fun sort_docs :: "platform \<Rightarrow> string \<times> int \<Rightarrow> doc list \<Rightarrow> doc list" where
  "sort_docs P (k, dir) ds = foldr (insert_doc P k dir) ds []"

text \<open>\<^verbatim>\<open>cursor.limit(n)\<close>: the server reads a limit of 0 as no limit.\<close>

definition limit_docs :: "nat \<Rightarrow> doc list \<Rightarrow> doc list" where
  "limit_docs n ds = (if n = 0 then ds else take n ds)"

text \<open>
  \<^verbatim>\<open>list(collection.find(f).sort(...).limit(n))\<close>: the matching documents, sorted when a
  sort is given, cut at the limit. A pattern the server cannot compile fails the query.
\<close>

definition find_docs ::
  "platform \<Rightarrow> doc list \<Rightarrow> filter \<Rightarrow> (string \<times> int) option \<Rightarrow> nat \<Rightarrow> error + doc list" where
  "find_docs P ds f srt n =
     (if \<not> filter_valid P f then Inl OperationFailure
      else Inr (limit_docs n
             (case srt of
                None \<Rightarrow> filter (matches P f) ds
              | Some s \<Rightarrow> sort_docs P s (filter (matches P f) ds))))"

definition run_find ::
  "platform \<Rightarrow> store \<Rightarrow> string \<Rightarrow> filter \<Rightarrow> (string \<times> int) option \<Rightarrow> nat
     \<Rightarrow> (error + doc list) \<times> store" where
  "run_find P st coll f srt n =
     (find_docs P (collections st coll) f srt n,
      st\<lparr>queries := queries st @ [Find coll f srt n]\<rparr>)"

text \<open>
  Modelled from the spec: \<^verbatim>\<open>get_documents\<close> of \<^verbatim>\<open>database.py\<close>, which is not among the
  sources. Section 4.1: it returns up to \<^verbatim>\<open>limit\<close> records matching the filter, in the
  store's natural order.
\<close>

definition get_documents ::
  "platform \<Rightarrow> store \<Rightarrow> string \<Rightarrow> filter \<Rightarrow> int \<Rightarrow> (error + doc list) \<times> store" where
  "get_documents P st coll f limit = run_find P st coll f None (nat limit)"

text \<open>
  Modelled from the spec: \<^verbatim>\<open>create_document\<close> of \<^verbatim>\<open>database.py\<close>, which is not among
  the sources. Sections 3 and 4.1: it persists the record into the named collection, the
  store assigns the identifier and \<^verbatim>\<open>created_at\<close>, and the identifier comes back as a
  string. The identifier \<open>oid\<close> and the time \<open>now\<close> are the store's choices.
\<close>

definition new_document :: "doc \<Rightarrow> string \<Rightarrow> int \<Rightarrow> doc" where
  "new_document record oid now =
     AList.update ''_id'' (BObjectId oid)
       (AList.update ''created_at'' (BDateTime now) record)"

definition create_document ::
  "platform \<Rightarrow> store \<Rightarrow> string \<Rightarrow> doc \<Rightarrow> string \<Rightarrow> int \<Rightarrow> string \<times> store" where
  "create_document P st coll record oid now =
     (py_str P (BObjectId oid),
      st\<lparr>collections := (collections st)
             (coll := collections st coll @ [new_document record oid now]),
         queries := queries st @ [InsertOne coll (new_document record oid now)]\<rparr>)"

section \<open>The request boundary\<close>

text \<open>
  \<^verbatim>\<open>Query(default, ge=lo, le=hi)\<close> on an \<^verbatim>\<open>int\<close> parameter: the default when the
  parameter is absent, a validation failure (answered with status 422 before the handler
  runs) when the value is out of bounds.
\<close>

definition query_int :: "int \<Rightarrow> int \<Rightarrow> int \<Rightarrow> int option \<Rightarrow> error + int" where
  "query_int dflt lo hi v =
     (case v of
        None \<Rightarrow> Inr dflt
      | Some n \<Rightarrow> if lo \<le> n \<and> n \<le> hi then Inr n else Inl RequestValidationError)"

text \<open>
  The status of a response: the route's own status for a value, 422 for a validation
  failure, the status of an \<^verbatim>\<open>HTTPException\<close>, 500 for any other exception.
\<close>

fun status_code :: "nat \<Rightarrow> error + 'a \<Rightarrow> nat" where
  "status_code ok (Inr v) = ok"
| "status_code ok (Inl RequestValidationError) = 422"
| "status_code ok (Inl (HTTPException code detail)) = code"
| "status_code ok (Inl OperationFailure) = 500"

text \<open>Python's truth value of an \<^verbatim>\<open>Optional[str]\<close>: \<^verbatim>\<open>None\<close> and \<^verbatim>\<open>""\<close> are false.\<close>

fun truthy :: "string option \<Rightarrow> bool" where
  "truthy None = False"
| "truthy (Some s) = (s \<noteq> [])"

section \<open>The handlers of main.py\<close>

definition product_to_public :: "platform \<Rightarrow> doc \<Rightarrow> doc" where
  "product_to_public P doc =
     (let doc1 = (case map_of doc ''_id'' of
                    None \<Rightarrow> doc
                  | Some v \<Rightarrow> AList.update ''id'' (BStr (py_str P v)) (AList.delete ''_id'' doc));
          doc2 = (case map_of doc1 ''created_at'' of
                    None \<Rightarrow> doc1
                  | Some v \<Rightarrow> AList.update ''created_at'' (BStr (py_str P v)) doc1);
          doc3 = (case map_of doc2 ''updated_at'' of
                    None \<Rightarrow> doc2
                  | Some v \<Rightarrow> AList.update ''updated_at'' (BStr (py_str P v)) doc2)
      in doc3)"


text \<open>The local variable \<^verbatim>\<open>filters\<close> of \<^verbatim>\<open>list_products\<close> when the query is issued.\<close>

definition list_products_filters :: "string option \<Rightarrow> string option \<Rightarrow> filter" where
  "list_products_filters category q =
     (if truthy category then [Field ''category'' (Eq (BStr (the category)))] else []) @
     (if truthy q then
        [Or [[Field ''title'' (Regex (the q) ''i'')],
             [Field ''description'' (Regex (the q) ''i'')],
             [Field ''tags'' (ElemMatch (Regex (the q) ''i''))]]]
      else [])"

definition list_products ::
  "platform \<Rightarrow> store option \<Rightarrow> string option \<Rightarrow> string option \<Rightarrow> int option
     \<Rightarrow> (error + doc list) \<times> store option" where
  "list_products P db category q limit =
     (case query_int 12 1 50 limit of
        Inl e \<Rightarrow> (Inl e, db)
      | Inr lim \<Rightarrow>
          (case db of
             None \<Rightarrow> (Inr [], None)
           | Some st \<Rightarrow>
               (case get_documents P st ''product'' (list_products_filters category q) lim of
                  (Inl e, st1) \<Rightarrow> (Inl e, Some st1)
                | (Inr docs, st1) \<Rightarrow> (Inr (map (product_to_public P) docs), Some st1))))"

text \<open>
  \<^verbatim>\<open>POST /api/products\<close>. The body is validated against \<^verbatim>\<open>ProductCreate\<close> before the
  function body runs; the schema class comes from \<^verbatim>\<open>schemas.py\<close>, which is not among the
  sources, so it is a parameter: \<open>None\<close> for a body it refuses, the validated fields
  otherwise. The route is declared with \<^verbatim>\<open>status_code=201\<close>; the response is the status
  together with the value or the failure.
\<close>

definition create_product ::
  "platform \<Rightarrow> (bson \<Rightarrow> doc option) \<Rightarrow> store option \<Rightarrow> bson \<Rightarrow> string \<Rightarrow> int
     \<Rightarrow> (nat \<times> (error + doc)) \<times> store option" where
  "create_product P ProductCreate db body oid now =
     (case (case ProductCreate body of
              None \<Rightarrow> (Inl RequestValidationError, db)
            | Some payload \<Rightarrow>
                (case db of
                   None \<Rightarrow> (Inl (HTTPException 500 ''Database non disponibile''), None)
                 | Some st \<Rightarrow>
                     (case create_document P st ''product'' payload oid now of
                        (inserted_id, st1) \<Rightarrow> (Inr [(''id'', BStr inserted_id)], Some st1)))) of
        (result, db1) \<Rightarrow> ((status_code 201 result, result), db1))"

definition featured_products ::
  "platform \<Rightarrow> store option \<Rightarrow> int option \<Rightarrow> (error + doc list) \<times> store option" where
  "featured_products P db limit =
     (case query_int 8 1 12 limit of
        Inl e \<Rightarrow> (Inl e, db)
      | Inr lim \<Rightarrow>
          (case db of
             None \<Rightarrow> (Inr [], None)
           | Some st \<Rightarrow>
               (case run_find P st ''product'' [Field ''tags'' (Eq (BStr ''featured''))]
                       None (nat lim) of
                  (Inl e, st1) \<Rightarrow> (Inl e, Some st1)
                | (Inr found, st1) \<Rightarrow>
                    if int (length found) < lim then
                      (case run_find P st1 ''product'' [] (Some (''created_at'', - 1))
                              (nat (lim - int (length found))) of
                         (Inl e, st2) \<Rightarrow> (Inl e, Some st2)
                       | (Inr more', st2) \<Rightarrow>
                           (Inr (map (product_to_public P) (take (nat lim) (found @ more'))),
                            Some st2))
                    else (Inr (map (product_to_public P) (take (nat lim) found)), Some st1))))"

section \<open>A platform and a store for the worked examples\<close>

text \<open>
  The theorems hold for every platform. The examples run on a small one: \<open>str\<close> of a
  text or an object identifier is the text itself and a date prints as its decimal
  number; every pattern that is more than plain text is refused; dates compare by their
  value, and an absent field comes before every date. The example schema accepts a body
  that is a document with a text title.
\<close>

function decimal :: "nat \<Rightarrow> string" where
  "decimal n =
     (if n < 10 then [''0123456789'' ! n]
      else decimal (n div 10) @ [''0123456789'' ! (n mod 10)])"
  by pat_completeness auto
termination
  by (relation "measure id") auto

declare decimal.simps [simp del]

fun sample_str :: "bson \<Rightarrow> string" where
  "sample_str (BStr s) = s"
| "sample_str (BObjectId h) = h"
| "sample_str (BDateTime t) = decimal (nat t)"
| "sample_str v = []"

definition sample_compile :: "string \<Rightarrow> string \<Rightarrow> (string \<Rightarrow> bool) option" where
  "sample_compile p opts = None"

fun sample_less :: "bson option \<Rightarrow> bson option \<Rightarrow> bool" where
  "sample_less (Some (BDateTime a)) (Some (BDateTime b)) = (a < b)"
| "sample_less None (Some (BDateTime b)) = True"
| "sample_less a b = False"

definition sample_platform :: platform where
  "sample_platform =
     \<lparr>py_str = sample_str, re_compile = sample_compile, bson_less = sample_less\<rparr>"

fun sample_schema :: "bson \<Rightarrow> doc option" where
  "sample_schema (BDoc fs) =
     (case map_of fs ''title'' of Some (BStr t) \<Rightarrow> Some fs | _ \<Rightarrow> None)"
| "sample_schema body = None"

definition zelda :: doc where
  "zelda =
     [(''_id'', BObjectId ''65a1''), (''title'', BStr ''Zelda''),
      (''description'', BStr ''Avventura''), (''category'', BStr ''videogiochi''),
      (''tags'', BList [BStr ''nintendo'']), (''created_at'', BDateTime 10)]"

definition pikachu :: doc where
  "pikachu =
     [(''_id'', BObjectId ''65a2''), (''title'', BStr ''Carta Pikachu''),
      (''description'', BStr ''Carta rara''), (''category'', BStr ''carte''),
      (''tags'', BList [BStr ''featured'', BStr ''pokemon'']), (''created_at'', BDateTime 20)]"

definition mug :: doc where
  "mug =
     [(''_id'', BObjectId ''65a3''), (''title'', BStr ''Tazza''),
      (''description'', BStr ''Tazza ZELDA''), (''category'', BStr ''gadget''),
      (''tags'', BList []), (''created_at'', BDateTime 30)]"

definition sample_store :: store where
  "sample_store =
     \<lparr>collections = (\<lambda>coll. if coll = ''product'' then [zelda, pikachu, mug] else []),
      queries = []\<rparr>"

definition single_store :: store where
  "single_store =
     \<lparr>collections = (\<lambda>coll. if coll = ''product'' then [pikachu] else []),
      queries = []\<rparr>"

section \<open>The request boundary: limits\<close>

lemma query_int_absent: "query_int dflt lo hi None = Inr dflt"
  by (simp add: query_int_def)

lemma query_int_within: "lo \<le> n \<Longrightarrow> n \<le> hi \<Longrightarrow> query_int dflt lo hi (Some n) = Inr n"
  by (simp add: query_int_def)

lemma query_int_outside:
  "n < lo \<or> hi < n \<Longrightarrow> query_int dflt lo hi (Some n) = Inl RequestValidationError"
  by (auto simp: query_int_def)

lemma list_products_rejects:
  "limit < 1 \<or> 50 < limit \<Longrightarrow>
   list_products P db category q (Some limit) = (Inl RequestValidationError, db)"
  by (simp add: list_products_def query_int_outside)

lemma featured_products_rejects:
  "limit < 1 \<or> 12 < limit \<Longrightarrow>
   featured_products P db (Some limit) = (Inl RequestValidationError, db)"
  by (simp add: featured_products_def query_int_outside)

text \<open>
  Claim C5. A limit outside [1, 50] given to \<^verbatim>\<open>GET /api/products\<close> is a validation
  failure: whatever the store, the category and the search text are, the answer is the
  failure with status 422, no product list comes back, and the store is handed back as it
  was, so no query has reached it. The limit is not clamped into the range.
\<close>

theorem list_products_limit_rejected:
  assumes "limit < 1 \<or> 50 < limit"
  shows "list_products P db category q (Some limit) = (Inl RequestValidationError, db) \<and>
         status_code 200 (fst (list_products P db category q (Some limit))) = 422"
  using assms by (simp add: list_products_rejects)

theorem list_products_limit_rejected_witness:
  "list_products sample_platform (Some sample_store) (Some ''carte'') None (Some 51)
     = (Inl RequestValidationError, Some sample_store) \<and>
   list_products sample_platform (Some sample_store) None None (Some 0)
     = (Inl RequestValidationError, Some sample_store) \<and>
   status_code 200
     (fst (list_products sample_platform (Some sample_store) None None (Some 0))) = 422"
  using list_products_limit_rejected [of 51 sample_platform "Some sample_store" "Some ''carte''" None]
        list_products_limit_rejected [of 0 sample_platform "Some sample_store" None None]
  by simp

section \<open>Categories\<close>


section \<open>The filter of the product list\<close>

lemma filters_empty_category:
  "list_products_filters (Some []) q = list_products_filters None q"
  by (simp add: list_products_filters_def)

lemma filters_empty_q:
  "list_products_filters category (Some []) = list_products_filters category None"
  by (simp add: list_products_filters_def)

text \<open>
  Claim C10. A category, or a search text, that is present but empty builds the same
  filter as an absent one, and the whole request is then answered as if the parameter were
  absent: the truth value of the parameter decides, not its presence.
\<close>

theorem list_products_empty_parameter:
  "list_products_filters (Some '''') q = list_products_filters None q \<and>
   list_products_filters category (Some '''') = list_products_filters category None \<and>
   list_products P db (Some '''') q limit = list_products P db None q limit \<and>
   list_products P db category (Some '''') limit = list_products P db category None limit"
  unfolding list_products_def filters_empty_category filters_empty_q by simp

section \<open>Response shaping\<close>

lemma public_no_oid: "map_of (product_to_public P d) ''_id'' = None"
  by (simp add: product_to_public_def Let_def update_conv' delete_conv' split: option.splits)

lemma public_id:
  "map_of d ''_id'' = Some v \<Longrightarrow> map_of (product_to_public P d) ''id'' = Some (BStr (py_str P v))"
  by (simp add: product_to_public_def Let_def update_conv' delete_conv' split: option.splits)

lemma public_id_untouched:
  "map_of d ''_id'' = None \<Longrightarrow> map_of (product_to_public P d) ''id'' = map_of d ''id''"
  by (simp add: product_to_public_def Let_def update_conv' delete_conv' split: option.splits)

lemma public_created_at:
  "map_of (product_to_public P d) ''created_at''
     = map_option (\<lambda>v. BStr (py_str P v)) (map_of d ''created_at'')"
  by (simp add: product_to_public_def Let_def update_conv' delete_conv' split: option.splits)

lemma public_updated_at:
  "map_of (product_to_public P d) ''updated_at''
     = map_option (\<lambda>v. BStr (py_str P v)) (map_of d ''updated_at'')"
  by (simp add: product_to_public_def Let_def update_conv' delete_conv' split: option.splits)

lemma public_other:
  "k \<noteq> ''_id'' \<Longrightarrow> k \<noteq> ''id'' \<Longrightarrow> k \<noteq> ''created_at'' \<Longrightarrow> k \<noteq> ''updated_at'' \<Longrightarrow>
   map_of (product_to_public P d) k = map_of d k"
  by (simp add: product_to_public_def Let_def update_conv' delete_conv' split: option.splits)

lemma set_insert_doc: "set (insert_doc P k dir d ys) = insert d (set ys)"
  by (induction ys) auto

lemma set_sort_docs: "set (sort_docs P s ds) = set ds"
proof (cases s)
  case (Pair k dir)
  have "set (foldr (insert_doc P k dir) ds []) = set ds"
    by (induction ds) (simp_all add: set_insert_doc)
  with Pair show ?thesis by simp
qed

lemma length_insert_doc: "length (insert_doc P k dir d ys) = Suc (length ys)"
  by (induction ys) auto

lemma length_sort_docs: "length (sort_docs P s ds) = length ds"
proof (cases s)
  case (Pair k dir)
  have "length (foldr (insert_doc P k dir) ds []) = length ds"
    by (induction ds) (simp_all add: length_insert_doc)
  with Pair show ?thesis by simp
qed

lemma set_limit_docs: "set (limit_docs n ds) \<subseteq> set ds"
  by (auto simp: limit_docs_def dest: in_set_takeD)

lemma find_docs_subset:
  assumes "find_docs P ds f srt n = Inr xs"
  shows "set xs \<subseteq> set ds"
proof -
  from assms have "xs = limit_docs n
      (case srt of None \<Rightarrow> filter (matches P f) ds
       | Some s \<Rightarrow> sort_docs P s (filter (matches P f) ds))"
    by (simp add: find_docs_def split: if_splits)
  moreover have "set (case srt of None \<Rightarrow> filter (matches P f) ds
       | Some s \<Rightarrow> sort_docs P s (filter (matches P f) ds)) \<subseteq> set ds"
    by (cases srt) (auto simp: set_sort_docs)
  ultimately show ?thesis using set_limit_docs by blast
qed

lemma list_products_from_store:
  assumes "fst (list_products P (Some st) category q limit) = Inr rs"
  shows "set rs \<subseteq> product_to_public P ` set (collections st ''product'')"
proof -
  from assms obtain lim docs where
    "find_docs P (collections st ''product'') (list_products_filters category q) None (nat lim)
       = Inr docs" and "rs = map (product_to_public P) docs"
    by (auto simp: list_products_def get_documents_def run_find_def
             split: sum.splits prod.splits)
  then show ?thesis using find_docs_subset by fastforce
qed

lemma featured_products_from_store:
  assumes "fst (featured_products P (Some st) limit) = Inr rs"
  shows "set rs \<subseteq> product_to_public P ` set (collections st ''product'')"
proof -
  let ?ds = "collections st ''product''"
  from assms obtain lim found where
    found: "find_docs P ?ds [Field ''tags'' (Eq (BStr ''featured''))] None (nat lim) = Inr found"
    and rs: "(int (length found) < lim \<and>
              (\<exists>more'. find_docs P ?ds [] (Some (''created_at'', - 1))
                          (nat (lim - int (length found))) = Inr more' \<and>
                 rs = map (product_to_public P) (take (nat lim) (found @ more')))) \<or>
             rs = map (product_to_public P) (take (nat lim) found)"
    by (auto simp: featured_products_def run_find_def split: sum.splits prod.splits if_splits)
  from found have f: "set found \<subseteq> set ?ds" by (rule find_docs_subset)
  from rs show ?thesis
  proof
    assume "int (length found) < lim \<and>
              (\<exists>more'. find_docs P ?ds [] (Some (''created_at'', - 1))
                          (nat (lim - int (length found))) = Inr more' \<and>
                 rs = map (product_to_public P) (take (nat lim) (found @ more')))"
    then obtain more' where
      m: "find_docs P ?ds [] (Some (''created_at'', - 1)) (nat (lim - int (length found))) = Inr more'"
      and r: "rs = map (product_to_public P) (take (nat lim) (found @ more'))" by blast
    from m have "set more' \<subseteq> set ?ds" by (rule find_docs_subset)
    with f have "set (take (nat lim) (found @ more')) \<subseteq> set ?ds"
      using set_take_subset [of "nat lim" "found @ more'"] by auto
    with r show ?thesis by auto
  next
    assume "rs = map (product_to_public P) (take (nat lim) found)"
    moreover have "set (take (nat lim) found) \<subseteq> set ?ds"
      using f set_take_subset [of "nat lim" found] by blast
    ultimately show ?thesis by auto
  qed
qed

text \<open>
  Claim C3. Shaping a record leaves no \<^verbatim>\<open>_id\<close> key; when the record has an \<^verbatim>\<open>_id\<close>, as
  every record of the store has, the shaped record has the text \<^verbatim>\<open>str(_id)\<close> under \<^verbatim>\<open>id\<close>;
  \<^verbatim>\<open>created_at\<close> and \<^verbatim>\<open>updated_at\<close> become their \<^verbatim>\<open>str\<close> when present and stay absent
  otherwise; every other field is unchanged. So, over a store whose records all carry an
  \<^verbatim>\<open>_id\<close>, every product returned by the list endpoint or by the featured endpoint has a
  text \<^verbatim>\<open>id\<close> and no \<^verbatim>\<open>_id\<close>.
\<close>

theorem product_to_public_shape:
  "map_of (product_to_public P d) ''_id'' = None \<and>
   (\<forall>v. map_of d ''_id'' = Some v \<longrightarrow>
        map_of (product_to_public P d) ''id'' = Some (BStr (py_str P v))) \<and>
   map_of (product_to_public P d) ''created_at''
     = map_option (\<lambda>v. BStr (py_str P v)) (map_of d ''created_at'') \<and>
   map_of (product_to_public P d) ''updated_at''
     = map_option (\<lambda>v. BStr (py_str P v)) (map_of d ''updated_at'') \<and>
   (\<forall>k. k \<notin> {''_id'', ''id'', ''created_at'', ''updated_at''} \<longrightarrow>
        map_of (product_to_public P d) k = map_of d k) \<and>
   (\<forall>category q limit rs r.
        list_all (\<lambda>d. map_of d ''_id'' \<noteq> None) (collections st ''product'') \<longrightarrow>
        fst (list_products P (Some st) category q limit) = Inr rs \<or>
        fst (featured_products P (Some st) limit) = Inr rs \<longrightarrow>
        r \<in> set rs \<longrightarrow>
        (\<exists>s. map_of r ''id'' = Some (BStr s)) \<and> map_of r ''_id'' = None)"
proof -
  have endpoints: "(\<exists>s. map_of r ''id'' = Some (BStr s)) \<and> map_of r ''_id'' = None"
    if stored: "list_all (\<lambda>d. map_of d ''_id'' \<noteq> None) (collections st ''product'')"
      and rs: "fst (list_products P (Some st) category q limit) = Inr rs \<or>
               fst (featured_products P (Some st) limit) = Inr rs"
      and r: "r \<in> set rs"
    for category q limit rs r
  proof -
    from rs have "set rs \<subseteq> product_to_public P ` set (collections st ''product'')"
      using list_products_from_store featured_products_from_store by blast
    with r obtain d' where d': "d' \<in> set (collections st ''product'')"
      and r': "r = product_to_public P d'" by blast
    from stored d' obtain v where "map_of d' ''_id'' = Some v"
      by (auto simp: list_all_iff)
    with r' show ?thesis by (simp add: public_id public_no_oid)
  qed
  show ?thesis
    using endpoints
    by (intro conjI allI impI)
       (simp_all add: public_no_oid public_id public_created_at public_updated_at public_other)
qed

theorem product_to_public_shape_witness:
  "map_of pikachu ''_id'' = Some (BObjectId ''65a2'') \<and>
   map_of (product_to_public sample_platform pikachu) ''_id'' = None \<and>
   map_of (product_to_public sample_platform pikachu) ''id'' = Some (BStr ''65a2'') \<and>
   map_of (product_to_public sample_platform pikachu) ''created_at'' = Some (BStr ''20'') \<and>
   map_of (product_to_public sample_platform pikachu) ''updated_at'' = None \<and>
   map_of (product_to_public sample_platform pikachu) ''title'' = Some (BStr ''Carta Pikachu'') \<and>
   list_all (\<lambda>d. map_of d ''_id'' \<noteq> None) (collections sample_store ''product'') \<and>
   fst (list_products sample_platform (Some sample_store) (Some ''gadget'') None None)
     = Inr [product_to_public sample_platform mug] \<and>
   (\<exists>s. map_of (product_to_public sample_platform mug) ''id'' = Some (BStr s)) \<and>
   map_of (product_to_public sample_platform mug) ''_id'' = None"
proof -
  have oid: "map_of pikachu ''_id'' = Some (BObjectId ''65a2'')"
    by (simp add: pikachu_def)
  have stored: "list_all (\<lambda>d. map_of d ''_id'' \<noteq> None) (collections sample_store ''product'')"
    by (simp add: sample_store_def zelda_def pikachu_def mug_def)
  have listed: "fst (list_products sample_platform (Some sample_store) (Some ''gadget'') None None)
     = Inr [product_to_public sample_platform mug]"
    by (simp add: list_products_def query_int_def get_documents_def run_find_def find_docs_def
          list_products_filters_def filter_valid_def matches_def limit_docs_def
          sample_store_def zelda_def pikachu_def mug_def)
  note shape = product_to_public_shape [of sample_platform pikachu sample_store]
  note s1 = shape [THEN conjunct1]
  note s2 = shape [THEN conjunct2, THEN conjunct1, rule_format, OF oid]
  note s3 = shape [THEN conjunct2, THEN conjunct2, THEN conjunct1]
  note s4 = shape [THEN conjunct2, THEN conjunct2, THEN conjunct2, THEN conjunct1]
  note s5 = shape [THEN conjunct2, THEN conjunct2, THEN conjunct2, THEN conjunct2,
                   THEN conjunct1, rule_format, of "''title''"]
  note s6 = shape [THEN conjunct2, THEN conjunct2, THEN conjunct2, THEN conjunct2,
                   THEN conjunct2, rule_format, OF stored disjI1, OF listed,
                   of "product_to_public sample_platform mug"]
  from s2 have a: "map_of (product_to_public sample_platform pikachu) ''id'' = Some (BStr ''65a2'')"
    by (simp add: sample_platform_def)
  from s3 have c: "map_of (product_to_public sample_platform pikachu) ''created_at''
      = Some (BStr ''20'')"
    by (simp add: pikachu_def sample_platform_def decimal.simps)
  from s4 have d: "map_of (product_to_public sample_platform pikachu) ''updated_at'' = None"
    by (simp add: pikachu_def)
  from s5 have e: "map_of (product_to_public sample_platform pikachu) ''title''
      = Some (BStr ''Carta Pikachu'')" by (simp add: pikachu_def)
  from s6 have f: "(\<exists>s. map_of (product_to_public sample_platform mug) ''id'' = Some (BStr s)) \<and>
        map_of (product_to_public sample_platform mug) ''_id'' = None"
    by simp
  from oid s1 a c d e stored listed f show ?thesis by (intro conjI) simp_all
qed

section \<open>Featured products\<close>

lemma matches_all: "matches P [] d"
  by (simp add: matches_def)

lemma matches_featured:
  "matches P [Field ''tags'' (Eq (BStr ''featured''))] d =
     (case map_of d ''tags'' of
        None \<Rightarrow> False
      | Some (BList ts) \<Rightarrow> BStr ''featured'' \<in> set ts
      | Some v \<Rightarrow> v = BStr ''featured'')"
proof (cases "map_of d ''tags''")
  case None
  then show ?thesis by (simp add: matches_def)
next
  case (Some v)
  then show ?thesis by (cases v) (auto simp: matches_def list_ex_iff)
qed

lemma find_docs_featured:
  "0 < n \<Longrightarrow>
   find_docs P ds [Field ''tags'' (Eq (BStr ''featured''))] None n =
     Inr (take n (filter (\<lambda>d. case map_of d ''tags'' of
                                None \<Rightarrow> False
                              | Some (BList ts) \<Rightarrow> BStr ''featured'' \<in> set ts
                              | Some v \<Rightarrow> v = BStr ''featured'') ds))"
proof -
  assume n: "0 < n"
  have "matches P [Field ''tags'' (Eq (BStr ''featured''))] =
          (\<lambda>d. case map_of d ''tags'' of
                                None \<Rightarrow> False
                              | Some (BList ts) \<Rightarrow> BStr ''featured'' \<in> set ts
                              | Some v \<Rightarrow> v = BStr ''featured'')"
    by (rule ext) (rule matches_featured)
  with n show ?thesis
    by (simp add: find_docs_def filter_valid_def limit_docs_def)
qed

lemma find_docs_recent:
  "0 < n \<Longrightarrow> find_docs P ds [] (Some s) n = Inr (take n (sort_docs P s ds))"
proof -
  assume n: "0 < n"
  have "filter (matches P []) ds = ds"
    by (simp add: matches_all)
  with n show ?thesis
    by (simp add: find_docs_def filter_valid_def limit_docs_def)
qed

lemma featured_products_in_range:
  assumes "1 \<le> limit" and "limit \<le> 12"
  shows "featured_products P (Some st) (Some limit) =
    (let docs = collections st ''product'';
         found = take (nat limit)
                   (filter (\<lambda>d. case map_of d ''tags'' of
                                   None \<Rightarrow> False
                                 | Some (BList ts) \<Rightarrow> BStr ''featured'' \<in> set ts
                                 | Some v \<Rightarrow> v = BStr ''featured'') docs);
         more' = take (nat limit - length found) (sort_docs P (''created_at'', - 1) docs);
         phase1 = Find ''product'' [Field ''tags'' (Eq (BStr ''featured''))] None (nat limit);
         phase2 = Find ''product'' [] (Some (''created_at'', - 1)) (nat limit - length found)
     in if length found < nat limit
        then (Inr (map (product_to_public P) (take (nat limit) (found @ more'))),
              Some (st\<lparr>queries := queries st @ [phase1, phase2]\<rparr>))
        else (Inr (map (product_to_public P) found),
              Some (st\<lparr>queries := queries st @ [phase1]\<rparr>)))"
proof -
  let ?docs = "collections st ''product''"
  let ?found = "take (nat limit)
                   (filter (\<lambda>d. case map_of d ''tags'' of
                                   None \<Rightarrow> False
                                 | Some (BList ts) \<Rightarrow> BStr ''featured'' \<in> set ts
                                 | Some v \<Rightarrow> v = BStr ''featured'') ?docs)"
  from assms have q: "query_int 8 1 12 (Some limit) = Inr limit"
    by (simp add: query_int_within)
  from assms have pos: "0 < nat limit" by simp
  have first: "run_find P st ''product'' [Field ''tags'' (Eq (BStr ''featured''))] None (nat limit)
     = (Inr ?found, st\<lparr>queries := queries st @
          [Find ''product'' [Field ''tags'' (Eq (BStr ''featured''))] None (nat limit)]\<rparr>)"
    using pos by (simp add: run_find_def find_docs_featured)
  have len: "length ?found \<le> nat limit" by simp
  show ?thesis
  proof (cases "length ?found < nat limit")
    case True
    then have lt: "int (length ?found) < limit" by linarith
    have n2: "nat (limit - int (length ?found)) = nat limit - length ?found" by linarith
    from True have pos2: "0 < nat limit - length ?found" by simp
    have second: "run_find P (st\<lparr>queries := queries st @
          [Find ''product'' [Field ''tags'' (Eq (BStr ''featured''))] None (nat limit)]\<rparr>)
          ''product'' [] (Some (''created_at'', - 1)) (nat limit - length ?found)
      = (Inr (take (nat limit - length ?found) (sort_docs P (''created_at'', - 1) ?docs)),
         st\<lparr>queries := queries st @
          [Find ''product'' [Field ''tags'' (Eq (BStr ''featured''))] None (nat limit),
           Find ''product'' [] (Some (''created_at'', - 1)) (nat limit - length ?found)]\<rparr>)"
      using pos2 by (simp add: run_find_def find_docs_recent)
    show ?thesis
      unfolding featured_products_def q Let_def
      using True lt by (simp only: first second n2 sum.case option.case prod.case if_True)
  next
    case False
    then have ge: "\<not> int (length ?found) < limit" by linarith
    from False len have "take (nat limit) ?found = ?found" by simp
    then show ?thesis
      unfolding featured_products_def q Let_def
      using False ge by (simp only: first sum.case option.case prod.case if_False)
  qed
qed

text \<open>
  Claim C1. For a limit in [1, 12] and a connected store, the featured endpoint first
  asks the server for up to \<open>limit\<close> products whose \<^verbatim>\<open>tags\<close> hold the literal
  \<^verbatim>\<open>featured\<close> (the field is an array holding it, or is that text itself). When this
  gives \<open>n < limit\<close> products, a second query goes to the server: over the whole
  collection (the empty filter), sorted by \<^verbatim>\<open>created_at\<close> descending, with the limit
  \<open>limit - n\<close>. The response is the shaped list of the first results followed by the
  second ones, cut at \<open>limit\<close>. When the first query fills the limit, it is the only
  query and its results are the response.
\<close>

theorem featured_products_two_phase:
  assumes "1 \<le> limit" and "limit \<le> 12"
  shows "featured_products P (Some st) (Some limit) =
    (let docs = collections st ''product'';
         found = take (nat limit)
                   (filter (\<lambda>d. case map_of d ''tags'' of
                                   None \<Rightarrow> False
                                 | Some (BList ts) \<Rightarrow> BStr ''featured'' \<in> set ts
                                 | Some v \<Rightarrow> v = BStr ''featured'') docs);
         more' = take (nat limit - length found) (sort_docs P (''created_at'', - 1) docs);
         phase1 = Find ''product'' [Field ''tags'' (Eq (BStr ''featured''))] None (nat limit);
         phase2 = Find ''product'' [] (Some (''created_at'', - 1)) (nat limit - length found)
     in if length found < nat limit
        then (Inr (map (product_to_public P) (take (nat limit) (found @ more'))),
              Some (st\<lparr>queries := queries st @ [phase1, phase2]\<rparr>))
        else (Inr (map (product_to_public P) found),
              Some (st\<lparr>queries := queries st @ [phase1]\<rparr>)))"
  using assms by (rule featured_products_in_range)

lemma sample_tagged:
  "filter (\<lambda>d. case map_of d ''tags'' of
                  None \<Rightarrow> False
                | Some (BList ts) \<Rightarrow> BStr ''featured'' \<in> set ts
                | Some v \<Rightarrow> v = BStr ''featured'') (collections sample_store ''product'')
     = [pikachu]"
  by (simp add: sample_store_def zelda_def pikachu_def mug_def)

lemma sample_recent:
  "sort_docs sample_platform (''created_at'', - 1) (collections sample_store ''product'')
     = [mug, pikachu, zelda]"
  by (simp add: sample_store_def zelda_def pikachu_def mug_def precedes_def sample_platform_def)

theorem featured_products_two_phase_witness:
  "featured_products sample_platform (Some sample_store) (Some 2)
     = (Inr [product_to_public sample_platform pikachu, product_to_public sample_platform mug],
        Some (sample_store\<lparr>queries :=
          [Find ''product'' [Field ''tags'' (Eq (BStr ''featured''))] None 2,
           Find ''product'' [] (Some (''created_at'', - 1)) 1]\<rparr>)) \<and>
   featured_products sample_platform (Some sample_store) (Some 1)
     = (Inr [product_to_public sample_platform pikachu],
        Some (sample_store\<lparr>queries :=
          [Find ''product'' [Field ''tags'' (Eq (BStr ''featured''))] None 1]\<rparr>))"
proof -
  have q: "queries sample_store = []" by (simp add: sample_store_def)
  have two: "(1::int) \<le> 2" "(2::int) \<le> 12" and one: "(1::int) \<le> 1" "(1::int) \<le> 12" by simp_all
  from featured_products_two_phase [OF two, of sample_platform sample_store]
  have a: "featured_products sample_platform (Some sample_store) (Some 2)
     = (Inr [product_to_public sample_platform pikachu, product_to_public sample_platform mug],
        Some (sample_store\<lparr>queries :=
          [Find ''product'' [Field ''tags'' (Eq (BStr ''featured''))] None 2,
           Find ''product'' [] (Some (''created_at'', - 1)) 1]\<rparr>))"
    by (simp add: Let_def sample_tagged sample_recent q del: sort_docs.simps)
  from featured_products_two_phase [OF one, of sample_platform sample_store]
  have b: "featured_products sample_platform (Some sample_store) (Some 1)
     = (Inr [product_to_public sample_platform pikachu],
        Some (sample_store\<lparr>queries :=
          [Find ''product'' [Field ''tags'' (Eq (BStr ''featured''))] None 1]\<rparr>))"
    by (simp add: Let_def sample_tagged q)
  from a b show ?thesis by (rule conjI)
qed

text \<open>
  Claim C8. There is a store with fewer featured products than the limit on which the
  featured endpoint returns the same product twice: with one product in the collection,
  tagged featured, and the limit 2, the second query has the empty filter, so it returns
  that product again, and nothing removes the duplicate.
\<close>

theorem featured_products_duplicates:
  "\<exists>st limit d.
     1 \<le> limit \<and> limit \<le> 12 \<and>
     int (length (filter (\<lambda>d. case map_of d ''tags'' of
                                 None \<Rightarrow> False
                               | Some (BList ts) \<Rightarrow> BStr ''featured'' \<in> set ts
                               | Some v \<Rightarrow> v = BStr ''featured'')
                    (collections st ''product''))) < limit \<and>
     d \<in> set (collections st ''product'') \<and>
     fst (featured_products P (Some st) (Some limit))
       = Inr [product_to_public P d, product_to_public P d] \<and>
     \<not> distinct [product_to_public P d, product_to_public P d] \<and>
     (\<exists>st1. snd (featured_products P (Some st) (Some limit)) = Some st1 \<and>
        queries st1 = queries st @
          [Find ''product'' [Field ''tags'' (Eq (BStr ''featured''))] None (nat limit),
           Find ''product'' [] (Some (''created_at'', - 1)) (nat limit - 1)])"
proof -
  have tagged: "filter (\<lambda>d. case map_of d ''tags'' of
                  None \<Rightarrow> False
                | Some (BList ts) \<Rightarrow> BStr ''featured'' \<in> set ts
                | Some v \<Rightarrow> v = BStr ''featured'') (collections single_store ''product'')
     = [pikachu]"
    by (simp add: single_store_def pikachu_def)
  have run: "featured_products P (Some single_store) (Some 2)
     = (Inr [product_to_public P pikachu, product_to_public P pikachu],
        Some (single_store\<lparr>queries := queries single_store @
          [Find ''product'' [Field ''tags'' (Eq (BStr ''featured''))] None 2,
           Find ''product'' [] (Some (''created_at'', - 1)) 1]\<rparr>))"
    by (simp add: featured_products_def query_int_def run_find_def find_docs_featured
          find_docs_recent tagged)
       (simp add: single_store_def)
  have "1 \<le> (2::int) \<and> (2::int) \<le> 12 \<and>
     int (length (filter (\<lambda>d. case map_of d ''tags'' of
                                 None \<Rightarrow> False
                               | Some (BList ts) \<Rightarrow> BStr ''featured'' \<in> set ts
                               | Some v \<Rightarrow> v = BStr ''featured'')
                    (collections single_store ''product''))) < 2 \<and>
     pikachu \<in> set (collections single_store ''product'') \<and>
     fst (featured_products P (Some single_store) (Some 2))
       = Inr [product_to_public P pikachu, product_to_public P pikachu] \<and>
     \<not> distinct [product_to_public P pikachu, product_to_public P pikachu] \<and>
     (\<exists>st1. snd (featured_products P (Some single_store) (Some 2)) = Some st1 \<and>
        queries st1 = queries single_store @
          [Find ''product'' [Field ''tags'' (Eq (BStr ''featured''))] None (nat 2),
           Find ''product'' [] (Some (''created_at'', - 1)) (nat 2 - 1)])"
    unfolding run tagged by (simp add: single_store_def)
  then show ?thesis by blast
qed

text \<open>
  What the sort of the second query gives when the server's comparison is a strict weak
  order: no document of the result comes before one with a greater key.
\<close>

lemma sorted_insert_doc:
  assumes asym: "\<And>a b. bson_less P a b \<Longrightarrow> \<not> bson_less P b a"
    and ntrans: "\<And>a b c. \<not> bson_less P a b \<Longrightarrow> \<not> bson_less P b c \<Longrightarrow> \<not> bson_less P a c"
    and "sorted_wrt (\<lambda>a b. \<not> bson_less P (map_of a k) (map_of b k)) ys"
  shows "sorted_wrt (\<lambda>a b. \<not> bson_less P (map_of a k) (map_of b k)) (insert_doc P k (- 1) d ys)"
  using assms(3)
proof (induction ys)
  case Nil
  then show ?case by simp
next
  case (Cons y ys)
  show ?case
  proof (cases "precedes P k (- 1) y d")
    case True
    then have "bson_less P (map_of d k) (map_of y k)" by (simp add: precedes_def)
    then have "\<not> bson_less P (map_of y k) (map_of d k)" by (rule asym)
    with True Cons show ?thesis by (auto simp: set_insert_doc)
  next
    case False
    then have yd: "\<not> bson_less P (map_of d k) (map_of y k)" by (simp add: precedes_def)
    have "\<not> bson_less P (map_of d k) (map_of z k)" if "z \<in> set ys" for z
    proof -
      from Cons.prems that have "\<not> bson_less P (map_of y k) (map_of z k)" by simp
      with yd show ?thesis by (rule ntrans)
    qed
    with False yd Cons.prems show ?thesis by simp
  qed
qed

lemma sort_docs_descending:
  assumes asym: "\<And>a b. bson_less P a b \<Longrightarrow> \<not> bson_less P b a"
    and ntrans: "\<And>a b c. \<not> bson_less P a b \<Longrightarrow> \<not> bson_less P b c \<Longrightarrow> \<not> bson_less P a c"
  shows "sorted_wrt (\<lambda>a b. \<not> bson_less P (map_of a k) (map_of b k)) (sort_docs P (k, - 1) ds)"
proof -
  have "sorted_wrt (\<lambda>a b. \<not> bson_less P (map_of a k) (map_of b k))
          (foldr (insert_doc P k (- 1)) ds [])"
  proof (induction ds)
    case Nil
    then show ?case by simp
  next
    case (Cons d ds)
    then show ?case using sorted_insert_doc [OF asym ntrans] by simp
  qed
  then show ?thesis by simp
qed

section \<open>Limits and the unavailable store\<close>

lemma list_products_default:
  "list_products P db category q None = list_products P db category q (Some 12)"
  by (simp add: list_products_def query_int_def)

lemma featured_products_default:
  "featured_products P db None = featured_products P db (Some 8)"
  by (simp add: featured_products_def query_int_def)

lemma list_products_unavailable:
  "limit = None \<or> (\<exists>n. limit = Some n \<and> 1 \<le> n \<and> n \<le> 50) \<Longrightarrow>
   list_products P None category q limit = (Inr [], None)"
  by (auto simp: list_products_def query_int_def)

lemma featured_products_unavailable:
  "limit = None \<or> (\<exists>n. limit = Some n \<and> 1 \<le> n \<and> n \<le> 12) \<Longrightarrow>
   featured_products P None limit = (Inr [], None)"
  by (auto simp: featured_products_def query_int_def)

text \<open>
  The limit is not clamped. On the example store a limit of 51 is refused where a limit
  of 50 lists the products, and the featured endpoint refuses a limit of 0 where a limit
  of 1 answers.
\<close>

theorem limit_not_clamped_counterexample:
  "fst (list_products sample_platform (Some sample_store) None None (Some 51))
     = Inl RequestValidationError \<and>
   fst (list_products sample_platform (Some sample_store) None None (Some 50))
     = Inr [product_to_public sample_platform zelda, product_to_public sample_platform pikachu,
            product_to_public sample_platform mug] \<and>
   fst (featured_products sample_platform (Some sample_store) (Some 0))
     = Inl RequestValidationError \<and>
   fst (featured_products sample_platform (Some sample_store) (Some 1))
     = Inr [product_to_public sample_platform pikachu]"
  by (simp add: list_products_def featured_products_def query_int_def get_documents_def
        run_find_def find_docs_def list_products_filters_def filter_valid_def matches_def
        limit_docs_def sample_store_def zelda_def pikachu_def mug_def)

lemma list_products_in_range:
  assumes "1 \<le> limit" and "limit \<le> 50"
  shows "list_products P (Some st) category q (Some limit) =
    (if filter_valid P (list_products_filters category q)
     then Inr (map (product_to_public P)
            (take (nat limit)
               (filter (matches P (list_products_filters category q))
                  (collections st ''product''))))
     else Inl OperationFailure,
     Some (st\<lparr>queries := queries st @
       [Find ''product'' (list_products_filters category q) None (nat limit)]\<rparr>))"
proof -
  from assms have q: "query_int 12 1 50 (Some limit) = Inr limit"
    by (simp add: query_int_within)
  from assms(1) have pos: "nat limit \<noteq> 0" by simp
  show ?thesis
    unfolding list_products_def q get_documents_def run_find_def find_docs_def limit_docs_def
    using pos by simp
qed

text \<open>
  Claim C4, amended. A limit outside [1, 50] on the product list, or outside [1, 12] on
  the featured endpoint, is refused as a validation failure and reaches no query. A limit
  within the range is used as it is: the product list sends its one query with that
  limit and answers with the first \<open>limit\<close> matching records, and the featured endpoint
  runs its two phases with that limit. An absent limit is 12 on the product list and 8
  on the featured endpoint.
\<close>

theorem limit_validated:
  "(limit < 1 \<or> 50 < limit \<longrightarrow>
      list_products P db category q (Some limit) = (Inl RequestValidationError, db)) \<and>
   (limit < 1 \<or> 12 < limit \<longrightarrow>
      featured_products P db (Some limit) = (Inl RequestValidationError, db)) \<and>
   (1 \<le> limit \<and> limit \<le> 50 \<longrightarrow>
      list_products P (Some st) category q (Some limit) =
        (if filter_valid P (list_products_filters category q)
         then Inr (map (product_to_public P)
                (take (nat limit)
                   (filter (matches P (list_products_filters category q))
                      (collections st ''product''))))
         else Inl OperationFailure,
         Some (st\<lparr>queries := queries st @
           [Find ''product'' (list_products_filters category q) None (nat limit)]\<rparr>))) \<and>
   (1 \<le> limit \<and> limit \<le> 12 \<longrightarrow>
      featured_products P (Some st) (Some limit) =
        (let docs = collections st ''product'';
             found = take (nat limit)
                       (filter (\<lambda>d. case map_of d ''tags'' of
                                       None \<Rightarrow> False
                                     | Some (BList ts) \<Rightarrow> BStr ''featured'' \<in> set ts
                                     | Some v \<Rightarrow> v = BStr ''featured'') docs);
             more' = take (nat limit - length found) (sort_docs P (''created_at'', - 1) docs);
             phase1 = Find ''product'' [Field ''tags'' (Eq (BStr ''featured''))] None (nat limit);
             phase2 = Find ''product'' [] (Some (''created_at'', - 1)) (nat limit - length found)
         in if length found < nat limit
            then (Inr (map (product_to_public P) (take (nat limit) (found @ more'))),
                  Some (st\<lparr>queries := queries st @ [phase1, phase2]\<rparr>))
            else (Inr (map (product_to_public P) found),
                  Some (st\<lparr>queries := queries st @ [phase1]\<rparr>)))) \<and>
   list_products P db category q None = list_products P db category q (Some 12) \<and>
   featured_products P db None = featured_products P db (Some 8)"
proof (intro conjI impI)
  show "list_products P db category q (Some limit) = (Inl RequestValidationError, db)"
    if "limit < 1 \<or> 50 < limit"
    using that by (rule list_products_rejects)
  show "featured_products P db (Some limit) = (Inl RequestValidationError, db)"
    if "limit < 1 \<or> 12 < limit"
    using that by (rule featured_products_rejects)
  show "list_products P (Some st) category q (Some limit) =
        (if filter_valid P (list_products_filters category q)
         then Inr (map (product_to_public P)
                (take (nat limit)
                   (filter (matches P (list_products_filters category q))
                      (collections st ''product''))))
         else Inl OperationFailure,
         Some (st\<lparr>queries := queries st @
           [Find ''product'' (list_products_filters category q) None (nat limit)]\<rparr>))"
    if "1 \<le> limit \<and> limit \<le> 50"
    using that by (intro list_products_in_range) simp_all
  show "featured_products P (Some st) (Some limit) =
        (let docs = collections st ''product'';
             found = take (nat limit)
                       (filter (\<lambda>d. case map_of d ''tags'' of
                                       None \<Rightarrow> False
                                     | Some (BList ts) \<Rightarrow> BStr ''featured'' \<in> set ts
                                     | Some v \<Rightarrow> v = BStr ''featured'') docs);
             more' = take (nat limit - length found) (sort_docs P (''created_at'', - 1) docs);
             phase1 = Find ''product'' [Field ''tags'' (Eq (BStr ''featured''))] None (nat limit);
             phase2 = Find ''product'' [] (Some (''created_at'', - 1)) (nat limit - length found)
         in if length found < nat limit
            then (Inr (map (product_to_public P) (take (nat limit) (found @ more'))),
                  Some (st\<lparr>queries := queries st @ [phase1, phase2]\<rparr>))
            else (Inr (map (product_to_public P) found),
                  Some (st\<lparr>queries := queries st @ [phase1]\<rparr>)))"
    if "1 \<le> limit \<and> limit \<le> 12"
    using that by (intro featured_products_in_range) simp_all
  show "list_products P db category q None = list_products P db category q (Some 12)"
    by (rule list_products_default)
  show "featured_products P db None = featured_products P db (Some 8)"
    by (rule featured_products_default)
qed

theorem limit_validated_witness:
  "list_products sample_platform (Some sample_store) None None (Some 51)
     = (Inl RequestValidationError, Some sample_store) \<and>
   featured_products sample_platform (Some sample_store) (Some 0)
     = (Inl RequestValidationError, Some sample_store) \<and>
   list_products sample_platform (Some sample_store) None None (Some 2)
     = (Inr [product_to_public sample_platform zelda, product_to_public sample_platform pikachu],
        Some (sample_store\<lparr>queries := [Find ''product'' [] None 2]\<rparr>)) \<and>
   featured_products sample_platform (Some sample_store) (Some 2)
     = (Inr [product_to_public sample_platform pikachu, product_to_public sample_platform mug],
        Some (sample_store\<lparr>queries :=
          [Find ''product'' [Field ''tags'' (Eq (BStr ''featured''))] None 2,
           Find ''product'' [] (Some (''created_at'', - 1)) 1]\<rparr>)) \<and>
   list_products sample_platform (Some sample_store) None None None
     = list_products sample_platform (Some sample_store) None None (Some 12) \<and>
   featured_products sample_platform (Some sample_store) None
     = featured_products sample_platform (Some sample_store) (Some 8)"
proof -
  have q: "queries sample_store = []"
    and docs: "collections sample_store ''product'' = [zelda, pikachu, mug]"
    by (simp_all add: sample_store_def)
  note high = limit_validated [where limit = 51 and P = sample_platform
      and db = "Some sample_store" and category = None and q = None and st = sample_store]
  note low = limit_validated [where limit = 0 and P = sample_platform
      and db = "Some sample_store" and category = None and q = None and st = sample_store]
  note mid = limit_validated [where limit = 2 and P = sample_platform
      and db = "Some sample_store" and category = None and q = None and st = sample_store]
  from high have a: "list_products sample_platform (Some sample_store) None None (Some 51)
     = (Inl RequestValidationError, Some sample_store)" by simp
  from low have b: "featured_products sample_platform (Some sample_store) (Some 0)
     = (Inl RequestValidationError, Some sample_store)" by simp
  from mid have "list_products sample_platform (Some sample_store) None None (Some 2) =
        (if filter_valid sample_platform (list_products_filters None None)
         then Inr (map (product_to_public sample_platform)
                (take (nat 2)
                   (filter (matches sample_platform (list_products_filters None None))
                      (collections sample_store ''product''))))
         else Inl OperationFailure,
         Some (sample_store\<lparr>queries := queries sample_store @
           [Find ''product'' (list_products_filters None None) None (nat 2)]\<rparr>))"
    by simp
  then have c: "list_products sample_platform (Some sample_store) None None (Some 2)
     = (Inr [product_to_public sample_platform zelda, product_to_public sample_platform pikachu],
        Some (sample_store\<lparr>queries := [Find ''product'' [] None 2]\<rparr>))"
    by (simp add: q docs list_products_filters_def filter_valid_def matches_def)
  from mid have d: "featured_products sample_platform (Some sample_store) (Some 2)
     = (Inr [product_to_public sample_platform pikachu, product_to_public sample_platform mug],
        Some (sample_store\<lparr>queries :=
          [Find ''product'' [Field ''tags'' (Eq (BStr ''featured''))] None 2,
           Find ''product'' [] (Some (''created_at'', - 1)) 1]\<rparr>))"
    by (simp add: Let_def sample_tagged sample_recent q del: sort_docs.simps)
  from mid have e: "list_products sample_platform (Some sample_store) None None None
     = list_products sample_platform (Some sample_store) None None (Some 12)"
    and f: "featured_products sample_platform (Some sample_store) None
     = featured_products sample_platform (Some sample_store) (Some 8)"
    by simp_all
  from a b c d e f show ?thesis by (intro conjI)
qed

text \<open>
  With no store, a product list request with the limit 100 is still refused at the
  boundary: the answer is the validation failure with status 422, not the empty list.
\<close>

theorem unavailable_store_counterexample:
  "fst (list_products sample_platform None None None (Some 100)) = Inl RequestValidationError \<and>
   fst (list_products sample_platform None None None (Some 100)) \<noteq> Inr [] \<and>
   status_code 200 (fst (list_products sample_platform None None None (Some 100))) = 422"
  by (simp add: list_products_def query_int_def)

text \<open>
  Claim C6, amended. With no store, every read request whose limit is absent or within
  the range of its endpoint is answered with the empty list and status 200, and the
  store handle stays as it was; no error is raised.
\<close>

theorem unavailable_store_reads_empty:
  "(limit = None \<or> (\<exists>n. limit = Some n \<and> 1 \<le> n \<and> n \<le> 50) \<longrightarrow>
      list_products P None category q limit = (Inr [], None) \<and>
      status_code 200 (fst (list_products P None category q limit)) = 200) \<and>
   (limit = None \<or> (\<exists>n. limit = Some n \<and> 1 \<le> n \<and> n \<le> 12) \<longrightarrow>
      featured_products P None limit = (Inr [], None) \<and>
      status_code 200 (fst (featured_products P None limit)) = 200)"
  using list_products_unavailable [of limit P category q]
        featured_products_unavailable [of limit P]
  by simp

theorem unavailable_store_reads_empty_witness:
  "list_products sample_platform None (Some ''carte'') (Some ''zelda'') (Some 50) = (Inr [], None) \<and>
   list_products sample_platform None (Some ''carte'') (Some ''zelda'') None = (Inr [], None) \<and>
   featured_products sample_platform None (Some 12) = (Inr [], None) \<and>
   featured_products sample_platform None None = (Inr [], None)"
  using unavailable_store_reads_empty [of "Some 50" sample_platform "Some ''carte''" "Some ''zelda''"]
        unavailable_store_reads_empty [of None sample_platform "Some ''carte''" "Some ''zelda''"]
        unavailable_store_reads_empty [of "Some 12" sample_platform "Some ''carte''" "Some ''zelda''"]
  by simp

section \<open>Product creation\<close>

lemma map_of_new_document_oid: "map_of (new_document payload oid now) ''_id'' = Some (BObjectId oid)"
  by (simp add: new_document_def update_conv')

lemma map_of_new_document_created:
  "map_of (new_document payload oid now) ''created_at'' = Some (BDateTime now)"
  by (simp add: new_document_def update_conv')

lemma map_of_new_document_other:
  "k \<noteq> ''_id'' \<Longrightarrow> k \<noteq> ''created_at'' \<Longrightarrow> map_of (new_document payload oid now) k = map_of payload k"
  by (simp add: new_document_def update_conv')

lemma create_product_refused:
  "ProductCreate body = None \<Longrightarrow>
   create_product P ProductCreate db body oid now = ((422, Inl RequestValidationError), db)"
  by (simp add: create_product_def)

lemma create_product_unavailable:
  "ProductCreate body = Some payload \<Longrightarrow>
   create_product P ProductCreate None body oid now
     = ((500, Inl (HTTPException 500 ''Database non disponibile'')), None)"
  by (simp add: create_product_def)

lemma create_product_created:
  "ProductCreate body = Some payload \<Longrightarrow>
   create_product P ProductCreate (Some st) body oid now
     = ((201, Inr [(''id'', BStr (py_str P (BObjectId oid)))]),
        Some (st\<lparr>collections := (collections st)
                 (''product'' := collections st ''product'' @ [new_document payload oid now]),
               queries := queries st @
                 [InsertOne ''product'' (new_document payload oid now)]\<rparr>))"
  by (simp add: create_product_def create_document_def)

text \<open>
  With no store, a body that the schema refuses is answered 422, not 500: the validation
  of the body comes before the test of the store handle. The body here is a JSON array.
\<close>

theorem create_product_counterexample:
  "sample_schema (BList []) = None \<and>
   create_product sample_platform sample_schema None (BList []) ''65a4'' 40
     = ((422, Inl RequestValidationError), None) \<and>
   fst (fst (create_product sample_platform sample_schema None (BList []) ''65a4'' 40)) \<noteq> 500"
  by (simp add: create_product_def)

text \<open>
  Claim C7, amended. A body that fails the validation is answered 422, whatever the
  store, and nothing is inserted. For a body that passes it: with no store the answer is
  the exception with status 500, no identifier, and there is still no store afterwards;
  with a store the answer has status 201 and is the single field \<^verbatim>\<open>id\<close>, the text of the
  identifier the store assigned, the product collection has grown by one record at its
  end, and one insertion has reached the server. That record carries the identifier and
  every validated field other than \<^verbatim>\<open>_id\<close> and \<^verbatim>\<open>created_at\<close>.
\<close>

theorem create_product_contract:
  "(ProductCreate body = None \<longrightarrow>
      create_product P ProductCreate db body oid now = ((422, Inl RequestValidationError), db)) \<and>
   (ProductCreate body = Some payload \<longrightarrow>
      create_product P ProductCreate None body oid now
        = ((500, Inl (HTTPException 500 ''Database non disponibile'')), None) \<and>
      fst (create_product P ProductCreate (Some st) body oid now)
        = (201, Inr [(''id'', BStr (py_str P (BObjectId oid)))]) \<and>
      (\<exists>st1. snd (create_product P ProductCreate (Some st) body oid now) = Some st1 \<and>
         collections st1 ''product''
           = collections st ''product'' @ [new_document payload oid now] \<and>
         queries st1 = queries st @ [InsertOne ''product'' (new_document payload oid now)])) \<and>
   map_of (new_document payload oid now) ''_id'' = Some (BObjectId oid) \<and>
   (\<forall>k. k \<noteq> ''_id'' \<and> k \<noteq> ''created_at'' \<longrightarrow>
        map_of (new_document payload oid now) k = map_of payload k)"
  by (simp add: create_product_refused create_product_unavailable create_product_created
        map_of_new_document_oid map_of_new_document_other)

theorem create_product_contract_witness:
  "sample_schema (BDoc [(''title'', BStr ''Dado''), (''category'', BStr ''gadget'')])
     = Some [(''title'', BStr ''Dado''), (''category'', BStr ''gadget'')] \<and>
   create_product sample_platform sample_schema None
       (BDoc [(''title'', BStr ''Dado''), (''category'', BStr ''gadget'')]) ''65a4'' 40
     = ((500, Inl (HTTPException 500 ''Database non disponibile'')), None) \<and>
   fst (create_product sample_platform sample_schema (Some sample_store)
          (BDoc [(''title'', BStr ''Dado''), (''category'', BStr ''gadget'')]) ''65a4'' 40)
     = (201, Inr [(''id'', BStr ''65a4'')]) \<and>
   map_of (new_document [(''title'', BStr ''Dado''), (''category'', BStr ''gadget'')] ''65a4'' 40)
       ''title'' = Some (BStr ''Dado'') \<and>
   sample_schema (BInt 5) = None \<and>
   create_product sample_platform sample_schema (Some sample_store) (BInt 5) ''65a4'' 40
     = ((422, Inl RequestValidationError), Some sample_store)"
proof -
  have ok: "sample_schema (BDoc [(''title'', BStr ''Dado''), (''category'', BStr ''gadget'')])
     = Some [(''title'', BStr ''Dado''), (''category'', BStr ''gadget'')]"
    and bad: "sample_schema (BInt 5) = None"
    by simp_all
  note c = create_product_contract [where P = sample_platform and ProductCreate = sample_schema
      and body = "BDoc [(''title'', BStr ''Dado''), (''category'', BStr ''gadget'')]"
      and payload = "[(''title'', BStr ''Dado''), (''category'', BStr ''gadget'')]"
      and oid = "''65a4''" and now = 40 and st = sample_store]
  note r = create_product_contract [where P = sample_platform and ProductCreate = sample_schema
      and body = "BInt 5" and db = "Some sample_store" and oid = "''65a4''" and now = 40]
  note valid = c [THEN conjunct2, THEN conjunct1, rule_format, OF ok]
  note c1 = valid [THEN conjunct1]
  note c2 = valid [THEN conjunct2, THEN conjunct1]
  note c4 = c [THEN conjunct2, THEN conjunct2, THEN conjunct2, rule_format, of "''title''"]
  note r1 = r [THEN conjunct1, rule_format, OF bad]
  from c2 have a: "fst (create_product sample_platform sample_schema (Some sample_store)
          (BDoc [(''title'', BStr ''Dado''), (''category'', BStr ''gadget'')]) ''65a4'' 40)
     = (201, Inr [(''id'', BStr ''65a4'')])" by (simp add: sample_platform_def)
  from c4 have b: "map_of (new_document [(''title'', BStr ''Dado''), (''category'', BStr ''gadget'')]
       ''65a4'' 40) ''title'' = Some (BStr ''Dado'')" by simp
  from ok c1 a b bad r1 show ?thesis by (intro conjI)
qed

section \<open>The product list\<close>

text \<open>The search of the model is the substring relation.\<close>

lemma starts_with_iff: "starts_with p s = (\<exists>b. s = p @ b)"
  by (induction p s rule: starts_with.induct) auto

lemma contains_iff: "contains p s = (\<exists>a b. s = a @ p @ b)"
proof (induction s)
  case Nil
  then show ?case by auto
next
  case (Cons x xs)
  have "(\<exists>a b. x # xs = a @ p @ b) = ((\<exists>b. x # xs = p @ b) \<or> (\<exists>a b. xs = a @ p @ b))"
  proof
    assume "\<exists>a b. x # xs = a @ p @ b"
    then obtain a b where ab: "x # xs = a @ p @ b" by blast
    show "(\<exists>b. x # xs = p @ b) \<or> (\<exists>a b. xs = a @ p @ b)"
    proof (cases a)
      case Nil
      with ab show ?thesis by auto
    next
      case (Cons y ys)
      with ab have "xs = ys @ p @ b" by simp
      then show ?thesis by blast
    qed
  next
    assume "(\<exists>b. x # xs = p @ b) \<or> (\<exists>a b. xs = a @ p @ b)"
    then show "\<exists>a b. x # xs = a @ p @ b"
    proof
      assume "\<exists>b. x # xs = p @ b"
      then obtain b where "x # xs = [] @ p @ b" by auto
      then show ?thesis by blast
    next
      assume "\<exists>a b. xs = a @ p @ b"
      then obtain a b where "x # xs = (x # a) @ p @ b" by auto
      then show ?thesis by blast
    qed
  qed
  with Cons show ?case by (simp add: starts_with_iff)
qed

lemma ci_contains_iff: "ci_contains p s = (\<exists>a b. map lower s = a @ map lower p @ b)"
  by (simp add: ci_contains_def contains_iff)








text \<open>
  A search text that is more than plain text is left to the platform; when the store
  refuses it as a pattern, the query fails.
\<close>

lemma list_products_bad_pattern:
  assumes "1 \<le> limit" and "limit \<le> 50" and "p \<noteq> []" and "\<not> list_all plain p"
    and "re_compile P p ''i'' = None"
  shows "fst (list_products P (Some st) category (Some p) (Some limit)) = Inl OperationFailure"
proof -
  from assms(4,5) have "regex P p ''i'' = None" by (simp add: regex_def)
  with assms(3) have "\<not> filter_valid P (list_products_filters category (Some p))"
    by (simp add: filter_valid_def list_products_filters_def)
  then show ?thesis by (simp add: list_products_in_range [OF assms(1,2)])
qed




end
